theory Spec2Isabelle
  imports Complex_Main "HOL-Library.Sublist"
begin

section \<open>Data model of the GPU task-assignment decisions\<close>

text \<open>
  The functions of \<^verbatim>\<open>src/gromacs/taskassignment/decidegpuusage.cpp\<close> decide, before a run
  starts, whether the nonbonded, PME, bonded and update tasks run on a GPU. Each is a pure
  function of its arguments that returns a \<^verbatim>\<open>bool\<close> or throws. The exceptions are values
  here: a result is \<open>Inl\<close> of the exception thrown or \<open>Inr\<close> of the boolean returned.
\<close>

datatype TaskTarget = Auto | Cpu | Gpu

datatype EmulateGpuNonbonded = No | Yes

text \<open>
  The build configuration macro \<^verbatim>\<open>GMX_GPU\<close> comes from \<^verbatim>\<open>config.h\<close>; the source
  distinguishes three values of it (any other is a compile error), so it is a parameter of
  every function whose text depends on it.
\<close>

datatype GmxGpu = GMX_GPU_NONE | GMX_GPU_CUDA | GMX_GPU_OPENCL

datatype GromacsException = InconsistentInputError string | NotImplementedError string

type_synonym 'a result = "GromacsException + 'a"

text \<open>
  \<^verbatim>\<open>formatString(g_specifyEverythingFormatString, arg)\<close>: the format string has one
  \<^verbatim>\<open>%s\<close>, and its tail is chosen by the preprocessor from \<^verbatim>\<open>GMX_GPU\<close>.
\<close>

definition g_specifyEverythingFormatString :: "GmxGpu \<Rightarrow> string \<Rightarrow> string" where
  "g_specifyEverythingFormatString GMX_GPU arg =
     ''When you use mdrun -gputasks, '' @ arg @ '' must be set to non-default ''
     @ ''values, so that the device IDs can be interpreted correctly.''
     @ (if GMX_GPU \<noteq> GMX_GPU_NONE then
          '' If you simply want to restrict which GPUs are used, then it is ''
          @ ''better to use mdrun -gpu_id. Otherwise, setting the ''
          @ (if GMX_GPU = GMX_GPU_CUDA then ''CUDA_VISIBLE_DEVICES'' else ''GPU_DEVICE_ORDINAL'')
          @ '' environment variable in your bash profile or job ''
          @ ''script may be more convenient.''
        else [])"

text \<open>
  The capability queries \<^verbatim>\<open>pme_gpu_supports_build\<close>, \<^verbatim>\<open>pme_gpu_supports_hardware\<close>
  and \<^verbatim>\<open>pme_gpu_supports_input\<close> are declared in \<^verbatim>\<open>gromacs/ewald/pme.h\<close> and are
  parameters of the PME decisions. A query yields the boolean it returns and the text that
  its \<^verbatim>\<open>std::string*\<close> argument holds after the call; a caller that passes
  \<^verbatim>\<open>nullptr\<close> reads the boolean only.
\<close>

type_synonym pme_gpu_support = "bool \<times> string"

section \<open>Nonbonded interactions\<close>

definition decideWhetherToUseGpusForNonbondedWithThreadMpi ::
  "GmxGpu \<Rightarrow> TaskTarget \<Rightarrow> int list \<Rightarrow> int list \<Rightarrow> EmulateGpuNonbonded \<Rightarrow> bool \<Rightarrow> bool \<Rightarrow> int
   \<Rightarrow> bool result" where
  "decideWhetherToUseGpusForNonbondedWithThreadMpi GMX_GPU nonbondedTarget gpuIdsToUse
       userGpuTaskAssignment emulateGpuNonbonded buildSupportsNonbondedOnGpu
       nonbondedOnGpuIsUseful numRanksPerSimulation =
     (if nonbondedTarget = Cpu \<or> emulateGpuNonbonded = Yes
         \<or> \<not> nonbondedOnGpuIsUseful \<or> \<not> buildSupportsNonbondedOnGpu
      then Inr False
      else if userGpuTaskAssignment \<noteq> [] then
        (if nonbondedTarget = Auto \<or> numRanksPerSimulation < 1
         then Inl (InconsistentInputError
                     (g_specifyEverythingFormatString GMX_GPU ''-nb and -ntmpi''))
         else Inr True)
      else if nonbondedTarget = Gpu then Inr True
      else (let haveGpus = (gpuIdsToUse \<noteq> []) in Inr haveGpus))"

definition decideWhetherToUseGpusForNonbonded ::
  "GmxGpu \<Rightarrow> TaskTarget \<Rightarrow> int list \<Rightarrow> EmulateGpuNonbonded \<Rightarrow> bool \<Rightarrow> bool \<Rightarrow> bool
   \<Rightarrow> bool result" where
  "decideWhetherToUseGpusForNonbonded GMX_GPU nonbondedTarget userGpuTaskAssignment
       emulateGpuNonbonded buildSupportsNonbondedOnGpu nonbondedOnGpuIsUseful
       gpusWereDetected =
     (if nonbondedTarget = Cpu then
        (if userGpuTaskAssignment \<noteq> [] then
           Inl (InconsistentInputError
                  (''A GPU task assignment was specified, but nonbonded interactions were ''
                   @ ''assigned to the CPU. Make no more than one of these choices.''))
         else Inr False)
      else if \<not> buildSupportsNonbondedOnGpu \<and> nonbondedTarget = Gpu then
        Inl (InconsistentInputError
               (''Nonbonded interactions on the GPU were requested with -nb gpu, ''
                @ ''but the GROMACS binary has been built without GPU support. ''
                @ ''Either run without selecting GPU options, or recompile GROMACS ''
                @ ''with GPU support enabled''))
      else if emulateGpuNonbonded = Yes then
        (if nonbondedTarget = Gpu then
           Inl (InconsistentInputError
                  (''Nonbonded interactions on the GPU were required, which is inconsistent ''
                   @ ''with choosing emulation. Make no more than one of these choices.''))
         else if userGpuTaskAssignment \<noteq> [] then
           Inl (InconsistentInputError
                  (''GPU ID usage was specified, as was GPU emulation. Make ''
                   @ ''no more than one of these choices.''))
         else Inr False)
      else if \<not> nonbondedOnGpuIsUseful then
        (if nonbondedTarget = Gpu then
           Inl (InconsistentInputError
                  (''Nonbonded interactions on the GPU were required, but not supported for these ''
                   @ ''simulation settings. Change your settings, or do not require using GPUs.''))
         else Inr False)
      else if userGpuTaskAssignment \<noteq> [] then
        (if nonbondedTarget = Auto then
           Inl (InconsistentInputError
                  (g_specifyEverythingFormatString GMX_GPU ''-nb and -ntmpi''))
         else Inr True)
      else if nonbondedTarget = Gpu then Inr True
      else Inr gpusWereDetected)"

section \<open>PME\<close>

definition decideWhetherToUseGpusForPmeWithThreadMpi ::
  "GmxGpu \<Rightarrow> pme_gpu_support \<Rightarrow> ('hw \<Rightarrow> pme_gpu_support) \<Rightarrow> ('ir \<Rightarrow> 'mt \<Rightarrow> pme_gpu_support)
   \<Rightarrow> bool \<Rightarrow> TaskTarget \<Rightarrow> int list \<Rightarrow> int list \<Rightarrow> 'hw \<Rightarrow> 'ir \<Rightarrow> 'mt \<Rightarrow> int \<Rightarrow> int
   \<Rightarrow> bool result" where
  "decideWhetherToUseGpusForPmeWithThreadMpi GMX_GPU pme_gpu_supports_build
       pme_gpu_supports_hardware pme_gpu_supports_input
       useGpuForNonbonded pmeTarget gpuIdsToUse userGpuTaskAssignment
       hardwareInfo inputrec mtop numRanksPerSimulation numPmeRanksPerSimulation =
     (if pmeTarget = Cpu \<or> \<not> useGpuForNonbonded \<or> \<not> fst pme_gpu_supports_build
         \<or> \<not> fst (pme_gpu_supports_hardware hardwareInfo)
         \<or> \<not> fst (pme_gpu_supports_input inputrec mtop)
      then Inr False
      else if userGpuTaskAssignment \<noteq> [] then
        (if pmeTarget = Auto \<or> numRanksPerSimulation < 1
         then Inl (InconsistentInputError
                     (g_specifyEverythingFormatString GMX_GPU ''all of -nb, -pme, and -ntmpi''))
         else if pmeTarget = Gpu then
           (if (numRanksPerSimulation > 1 \<and> numPmeRanksPerSimulation = 0)
               \<or> numPmeRanksPerSimulation > 1
            then Inl (InconsistentInputError
                        (''When you run mdrun -pme gpu -gputasks, you must supply a PME-enabled .tpr ''
                         @ ''file and use a single PME rank.''))
            else Inr True)
         else Inr (numRanksPerSimulation = 1))
      else if pmeTarget = Gpu then
        (if (numRanksPerSimulation > 1 \<and> numPmeRanksPerSimulation = 0)
            \<or> numPmeRanksPerSimulation > 1
         then Inl (NotImplementedError
                     (''PME tasks were required to run on GPUs, but that is not implemented with ''
                      @ ''more than one PME rank. Use a single rank simulation, or a separate PME rank, ''
                      @ ''or permit PME tasks to be assigned to the CPU.''))
         else Inr True)
      else if numRanksPerSimulation = 1 then Inr (gpuIdsToUse \<noteq> [])
      else if numRanksPerSimulation < 1 then Inr (length gpuIdsToUse = 1)
      else Inr False)"

text \<open>
  In the general resolver one \<^verbatim>\<open>std::string message\<close> is handed to the three queries in
  turn, and the text thrown is the one the failing query left in it. The second test of
  \<^verbatim>\<open>pmeTarget == TaskTarget::Cpu\<close>, with its throw, is kept where the source has it.
\<close>

definition decideWhetherToUseGpusForPme ::
  "GmxGpu \<Rightarrow> pme_gpu_support \<Rightarrow> ('hw \<Rightarrow> pme_gpu_support) \<Rightarrow> ('ir \<Rightarrow> 'mt \<Rightarrow> pme_gpu_support)
   \<Rightarrow> bool \<Rightarrow> TaskTarget \<Rightarrow> int list \<Rightarrow> 'hw \<Rightarrow> 'ir \<Rightarrow> 'mt \<Rightarrow> int \<Rightarrow> int \<Rightarrow> bool
   \<Rightarrow> bool result" where
  "decideWhetherToUseGpusForPme GMX_GPU pme_gpu_supports_build
       pme_gpu_supports_hardware pme_gpu_supports_input
       useGpuForNonbonded pmeTarget userGpuTaskAssignment
       hardwareInfo inputrec mtop numRanksPerSimulation numPmeRanksPerSimulation
       gpusWereDetected =
     (if pmeTarget = Cpu then Inr False
      else if \<not> useGpuForNonbonded then
        (if pmeTarget = Gpu then
           Inl (NotImplementedError
                  ''PME on GPUs is only supported when nonbonded interactions run on GPUs also.'')
         else Inr False)
      else if \<not> fst pme_gpu_supports_build then
        (if pmeTarget = Gpu then
           Inl (NotImplementedError
                  (''Cannot compute PME interactions on a GPU, because ''
                   @ snd pme_gpu_supports_build))
         else Inr False)
      else if \<not> fst (pme_gpu_supports_hardware hardwareInfo) then
        (if pmeTarget = Gpu then
           Inl (NotImplementedError
                  (''Cannot compute PME interactions on a GPU, because ''
                   @ snd (pme_gpu_supports_hardware hardwareInfo)))
         else Inr False)
      else if \<not> fst (pme_gpu_supports_input inputrec mtop) then
        (if pmeTarget = Gpu then
           Inl (NotImplementedError
                  (''Cannot compute PME interactions on a GPU, because ''
                   @ snd (pme_gpu_supports_input inputrec mtop)))
         else Inr False)
      else if pmeTarget = Cpu then
        (if userGpuTaskAssignment \<noteq> [] then
           Inl (InconsistentInputError
                  (''A GPU task assignment was specified, but PME interactions were ''
                   @ ''assigned to the CPU. Make no more than one of these choices.''))
         else Inr False)
      else if userGpuTaskAssignment \<noteq> [] then
        (if pmeTarget = Auto then
           Inl (InconsistentInputError
                  (g_specifyEverythingFormatString GMX_GPU ''all of -nb, -pme, and -ntmpi''))
         else Inr True)
      else if pmeTarget = Gpu then
        (if (numRanksPerSimulation > 1 \<and> numPmeRanksPerSimulation = 0)
            \<or> numPmeRanksPerSimulation > 1
         then Inl (NotImplementedError
                     (''PME tasks were required to run on GPUs, but that is not implemented with ''
                      @ ''more than one PME rank. Use a single rank simulation, or a separate PME rank, ''
                      @ ''or permit PME tasks to be assigned to the CPU.''))
         else Inr True)
      else if numRanksPerSimulation = 1 then Inr gpusWereDetected
      else Inr False)"

section \<open>Bonded interactions\<close>

definition decideWhetherToUseGpusForBonded ::
  "bool \<Rightarrow> bool \<Rightarrow> TaskTarget \<Rightarrow> bool \<Rightarrow> bool \<Rightarrow> bool \<Rightarrow> int \<Rightarrow> bool \<Rightarrow> bool result" where
  "decideWhetherToUseGpusForBonded useGpuForNonbonded useGpuForPme bondedTarget
       canUseGpuForBonded usingLJPme usingElecPmeOrEwald numPmeRanksPerSimulation
       gpusWereDetected =
     (if bondedTarget = Cpu then Inr False
      else if \<not> canUseGpuForBonded then
        (if bondedTarget = Gpu then
           Inl (InconsistentInputError
                  (''Bonded interactions on the GPU were required, but not supported for these ''
                   @ ''simulation settings. Change your settings, or do not require using GPUs.''))
         else Inr False)
      else if \<not> useGpuForNonbonded then
        (if bondedTarget = Gpu then
           Inl (InconsistentInputError
                  (''Bonded interactions on the GPU were required, but this requires that ''
                   @ ''short-ranged non-bonded interactions are also run on the GPU. Change ''
                   @ ''your settings, or do not require using GPUs.''))
         else Inr False)
      else if bondedTarget = Gpu then Inr True
      else
        (let usingOurCpuForPmeOrEwald =
               (usingLJPme
                \<or> (usingElecPmeOrEwald \<and> \<not> useGpuForPme \<and> numPmeRanksPerSimulation \<le> 0))
         in Inr (gpusWereDetected \<and> usingOurCpuForPmeOrEwald)))"

section \<open>Update and constraints\<close>

text \<open>
  The fields of \<^verbatim>\<open>t_inputrec\<close> that the update decision reads. The enumerations are C
  \<^verbatim>\<open>int\<close>s; \<^verbatim>\<open>epsilon_surface\<close> is only compared with zero; \<^verbatim>\<open>pull\<close> is a pointer
  that is only tested for null, so it is an option of an opaque value.
\<close>

datatype pull_params_t = PullParams

record t_inputrec =
  eI :: int
  etc :: int
  epc :: int
  coulombtype :: int
  epsilon_surface :: real
  bPull :: bool
  pull :: "pull_params_t option"
  efep :: int
  eSwapCoords :: int

text \<open>
  The enumeration constants and the macro \<^verbatim>\<open>EEL_PME_EWALD\<close> are declared in
  \<^verbatim>\<open>gromacs/mdtypes/md_enums.h\<close>; the decision takes them as a parameter.
\<close>

record md_enums =
  eiMD :: int
  etcNOSEHOOVER :: int
  epcNO :: int
  epcPARRINELLORAHMAN :: int
  epcBERENDSEN :: int
  efepNO :: int
  eswapNO :: int
  EEL_PME_EWALD :: "int \<Rightarrow> bool"

definition decideWhetherToUseGpuForUpdate ::
  "GmxGpu \<Rightarrow> md_enums \<Rightarrow> bool \<Rightarrow> bool \<Rightarrow> bool \<Rightarrow> bool \<Rightarrow> TaskTarget \<Rightarrow> bool \<Rightarrow> t_inputrec
   \<Rightarrow> bool \<Rightarrow> bool \<Rightarrow> bool \<Rightarrow> bool \<Rightarrow> bool result" where
  "decideWhetherToUseGpuForUpdate GMX_GPU enums forceGpuUpdateDefaultOn isDomainDecomposition
       useGpuForPme useGpuForNonbonded updateTarget gpusWereDetected inputrec haveVSites
       useEssentialDynamics doOrientationRestraints useReplicaExchange =
     (if updateTarget = Cpu then Inr False
      else
        (let errorMessage = [];
             errorMessage =
               (if isDomainDecomposition
                then errorMessage @ ''Domain decomposition is not supported.\<newline>''
                else errorMessage);
             errorMessage =
               (if \<not> (useGpuForPme \<or> useGpuForNonbonded)
                then errorMessage
                     @ ''Either PME or short-ranged non-bonded interaction tasks must run on the GPU.\<newline>''
                else errorMessage);
             errorMessage =
               (if \<not> gpusWereDetected
                then errorMessage @ ''Compatible GPUs must have been found.\<newline>''
                else errorMessage);
             errorMessage =
               (if GMX_GPU \<noteq> GMX_GPU_CUDA
                then errorMessage @ ''Only a CUDA build is supported.\<newline>''
                else errorMessage);
             errorMessage =
               (if eI inputrec \<noteq> eiMD enums
                then errorMessage @ ''Only the md integrator is supported.\<newline>''
                else errorMessage);
             errorMessage =
               (if etc inputrec = etcNOSEHOOVER enums
                then errorMessage @ ''Nose-Hoover temperature coupling is not supported.\<newline>''
                else errorMessage);
             errorMessage =
               (if \<not> (epc inputrec = epcNO enums \<or> epc inputrec = epcPARRINELLORAHMAN enums
                       \<or> epc inputrec = epcBERENDSEN enums)
                then errorMessage
                     @ ''Only Parrinello-Rahman and Berendsen pressure coupling are supported.\<newline>''
                else errorMessage);
             errorMessage =
               (if EEL_PME_EWALD enums (coulombtype inputrec) \<and> epsilon_surface inputrec \<noteq> 0
                then errorMessage @ ''Ewald surface correction is not supported.\<newline>''
                else errorMessage);
             errorMessage =
               (if haveVSites
                then errorMessage @ ''Virtual sites are not supported.\<newline>''
                else errorMessage);
             errorMessage =
               (if useEssentialDynamics
                then errorMessage @ ''Essential dynamics is not supported.\<newline>''
                else errorMessage);
             errorMessage =
               (if bPull inputrec \<or> pull inputrec \<noteq> None
                then errorMessage @ ''Pulling is not supported.\<newline>''
                else errorMessage);
             errorMessage =
               (if doOrientationRestraints
                then errorMessage @ ''Orientation restraints are not supported.\<newline>''
                else errorMessage);
             errorMessage =
               (if efep inputrec \<noteq> efepNO enums
                then errorMessage @ ''Free energy perturbations are not supported.\<newline>''
                else errorMessage);
             errorMessage =
               (if useReplicaExchange
                then errorMessage @ ''Replica exchange simulations are not supported.\<newline>''
                else errorMessage);
             errorMessage =
               (if eSwapCoords inputrec \<noteq> eswapNO enums
                then errorMessage @ ''Swapping the coordinates is not supported.\<newline>''
                else errorMessage)
         in if errorMessage \<noteq> [] then
              (if updateTarget = Gpu then
                 (let prefix = ''Update task on the GPU was required,\<newline>''
                               @ ''but the following condition(s) were not satisfied:\<newline>''
                  in Inl (InconsistentInputError (prefix @ errorMessage)))
               else Inr False)
            else Inr ((forceGpuUpdateDefaultOn \<and> updateTarget = Auto) \<or> updateTarget = Gpu)))"

section \<open>The update checklist, as the specification words it\<close>

text \<open>
  The specification describes the update decision as an accumulator over named checks,
  each contributing zero or one line to a joined report. \<open>updateChecklist\<close> is that list
  of checks, each with the line it contributes when it is violated, in the order of the
  source; \<open>unmetConditions\<close> keeps the lines of the violated ones. The decision itself is
  \<open>decideWhetherToUseGpuForUpdate\<close> above; the two are compared in
  \<open>update_by_checklist\<close>.
\<close>

definition updateChecklist ::
  "GmxGpu \<Rightarrow> md_enums \<Rightarrow> bool \<Rightarrow> bool \<Rightarrow> bool \<Rightarrow> bool \<Rightarrow> t_inputrec \<Rightarrow> bool \<Rightarrow> bool \<Rightarrow> bool \<Rightarrow> bool
   \<Rightarrow> (bool \<times> string) list" where
  "updateChecklist GMX_GPU enums isDomainDecomposition useGpuForPme useGpuForNonbonded
       gpusWereDetected inputrec haveVSites useEssentialDynamics doOrientationRestraints
       useReplicaExchange =
     [(isDomainDecomposition, ''Domain decomposition is not supported.\<newline>''),
      (\<not> (useGpuForPme \<or> useGpuForNonbonded),
       ''Either PME or short-ranged non-bonded interaction tasks must run on the GPU.\<newline>''),
      (\<not> gpusWereDetected, ''Compatible GPUs must have been found.\<newline>''),
      (GMX_GPU \<noteq> GMX_GPU_CUDA, ''Only a CUDA build is supported.\<newline>''),
      (eI inputrec \<noteq> eiMD enums, ''Only the md integrator is supported.\<newline>''),
      (etc inputrec = etcNOSEHOOVER enums,
       ''Nose-Hoover temperature coupling is not supported.\<newline>''),
      (\<not> (epc inputrec = epcNO enums \<or> epc inputrec = epcPARRINELLORAHMAN enums
           \<or> epc inputrec = epcBERENDSEN enums),
       ''Only Parrinello-Rahman and Berendsen pressure coupling are supported.\<newline>''),
      (EEL_PME_EWALD enums (coulombtype inputrec) \<and> epsilon_surface inputrec \<noteq> 0,
       ''Ewald surface correction is not supported.\<newline>''),
      (haveVSites, ''Virtual sites are not supported.\<newline>''),
      (useEssentialDynamics, ''Essential dynamics is not supported.\<newline>''),
      (bPull inputrec \<or> pull inputrec \<noteq> None, ''Pulling is not supported.\<newline>''),
      (doOrientationRestraints, ''Orientation restraints are not supported.\<newline>''),
      (efep inputrec \<noteq> efepNO enums, ''Free energy perturbations are not supported.\<newline>''),
      (useReplicaExchange, ''Replica exchange simulations are not supported.\<newline>''),
      (eSwapCoords inputrec \<noteq> eswapNO enums, ''Swapping the coordinates is not supported.\<newline>'')]"

definition unmetConditions :: "(bool \<times> string) list \<Rightarrow> string list" where
  "unmetConditions cs = map snd (filter fst cs)"

definition updateErrorPrefix :: string where
  "updateErrorPrefix = ''Update task on the GPU was required,\<newline>''
                       @ ''but the following condition(s) were not satisfied:\<newline>''"

section \<open>The update decision follows its checklist\<close>

lemma append_if_else: "(if c then acc @ m else acc) = acc @ (if c then m else [])"
  by simp

lemma concat_unmet_Cons:
  "concat (unmetConditions ((c, m) # cs)) = (if c then m else []) @ concat (unmetConditions cs)"
  by (simp add: unmetConditions_def)

lemma concat_unmet_Nil: "concat (unmetConditions []) = []"
  by (simp add: unmetConditions_def)

lemma update_by_checklist:
  "decideWhetherToUseGpuForUpdate GMX_GPU enums forceGpuUpdateDefaultOn isDomainDecomposition
       useGpuForPme useGpuForNonbonded updateTarget gpusWereDetected inputrec haveVSites
       useEssentialDynamics doOrientationRestraints useReplicaExchange =
   (if updateTarget = Cpu then Inr False
    else if concat (unmetConditions (updateChecklist GMX_GPU enums isDomainDecomposition
              useGpuForPme useGpuForNonbonded gpusWereDetected inputrec haveVSites
              useEssentialDynamics doOrientationRestraints useReplicaExchange)) \<noteq> [] then
      (if updateTarget = Gpu then
         Inl (InconsistentInputError (updateErrorPrefix
           @ concat (unmetConditions (updateChecklist GMX_GPU enums isDomainDecomposition
              useGpuForPme useGpuForNonbonded gpusWereDetected inputrec haveVSites
              useEssentialDynamics doOrientationRestraints useReplicaExchange))))
       else Inr False)
    else Inr ((forceGpuUpdateDefaultOn \<and> updateTarget = Auto) \<or> updateTarget = Gpu))"
  unfolding decideWhetherToUseGpuForUpdate_def updateChecklist_def updateErrorPrefix_def
  apply (simp only: append_if_else)
  apply (simp only: Let_def concat_unmet_Cons concat_unmet_Nil append_Nil append_Nil2 append_assoc)
  done


lemma concat_unmet_empty_iff:
  "\<forall>cm \<in> set cs. snd cm \<noteq> [] \<Longrightarrow>
   (concat (unmetConditions cs) = []) = (unmetConditions cs = [])"
proof (induction cs)
  case Nil
  show ?case by (simp add: unmetConditions_def)
next
  case (Cons a cs)
  obtain c m where a: "a = (c, m)" by (cases a)
  from Cons.prems a have m: "m \<noteq> []" by simp
  from Cons have ih: "(concat (unmetConditions cs) = []) = (unmetConditions cs = [])" by simp
  show ?case
  proof (cases c)
    case True
    with a m show ?thesis by (simp add: unmetConditions_def)
  next
    case False
    with a ih show ?thesis by (simp add: unmetConditions_def)
  qed
qed

lemma updateChecklist_messages_nonempty:
  "\<forall>cm \<in> set (updateChecklist GMX_GPU enums dd pme nb g ir vs ed orr re). snd cm \<noteq> []"
  by (simp add: updateChecklist_def)

lemma sublist_member_concat: "m \<in> set ms \<Longrightarrow> sublist m (p @ concat ms)"
proof -
  assume "m \<in> set ms"
  then obtain xs ys where "ms = xs @ m # ys"
    by (auto dest: split_list)
  then have "p @ concat ms = (p @ concat xs) @ m @ concat ys"
    by simp
  then show ?thesis
    unfolding sublist_def by blast
qed

section \<open>C1: PME on the GPU needs the nonbonded interactions there\<close>

text \<open>
  C1. Whenever a PME decision, thread-MPI or general, returns \<open>true\<close> (and so did not
  throw), the nonbonded placement passed to it is \<open>true\<close>: no input places PME on the
  GPU while the nonbonded interactions are not.
\<close>

theorem pme_on_gpu_implies_nonbonded_on_gpu:
  "(decideWhetherToUseGpusForPmeWithThreadMpi GMX_GPU sb sh si useGpuForNonbonded pmeTarget
       gpuIdsToUse userGpuTaskAssignment hardwareInfo inputrec mtop nr npr = Inr True
     \<longrightarrow> useGpuForNonbonded)
   \<and> (decideWhetherToUseGpusForPme GMX_GPU sb sh si useGpuForNonbonded pmeTarget
       userGpuTaskAssignment hardwareInfo inputrec mtop nr npr gpusWereDetected = Inr True
     \<longrightarrow> useGpuForNonbonded)"
  by (simp add: decideWhetherToUseGpusForPmeWithThreadMpi_def decideWhetherToUseGpusForPme_def
      split: if_splits)

theorem pme_on_gpu_implies_nonbonded_on_gpu_witness:
  "decideWhetherToUseGpusForPmeWithThreadMpi GMX_GPU_CUDA (True, []) (\<lambda>hw :: unit. (True, []))
       (\<lambda>(ir :: unit) (mt :: unit). (True, [])) True Gpu [0] [] () () () 1 0 = Inr True
   \<and> decideWhetherToUseGpusForPme GMX_GPU_CUDA (True, []) (\<lambda>hw :: unit. (True, []))
       (\<lambda>(ir :: unit) (mt :: unit). (True, [])) True Gpu [] () () () 1 0 True = Inr True
   \<and> True"
  using pme_on_gpu_implies_nonbonded_on_gpu
    [where GMX_GPU = GMX_GPU_CUDA and sb = "(True, [])" and sh = "\<lambda>hw :: unit. (True, [])"
       and si = "\<lambda>(ir :: unit) (mt :: unit). (True, [])" and useGpuForNonbonded = True
       and pmeTarget = Gpu and gpuIdsToUse = "[0]" and userGpuTaskAssignment = "[]"
       and hardwareInfo = "()" and inputrec = "()" and mtop = "()" and nr = 1 and npr = 0
       and gpusWereDetected = True]
  by (simp add: decideWhetherToUseGpusForPmeWithThreadMpi_def decideWhetherToUseGpusForPme_def)

section \<open>C2: a failed capability check of PME\<close>

text \<open>
  C2, as the code has it. Suppose the nonbonded interactions are not on the GPU, or one of
  the three capability queries (build, hardware, input) fails. The general decision then
  returns \<open>false\<close> for the targets \<open>Auto\<close> and \<open>Cpu\<close>, and for the target \<open>Gpu\<close>
  it throws a \<open>NotImplementedError\<close> whose text names the first failing check in the order
  nonbonded, build, hardware, input: the fixed sentence about the nonbonded interactions, or
  "Cannot compute PME interactions on a GPU, because " followed by the reason of the failing
  query. The thread-MPI decision returns \<open>false\<close> for every target, \<open>Gpu\<close> included: it
  does not throw there (its comment leaves that error to a later stage).
\<close>

theorem pme_capability_failure:
  assumes "\<not> useGpuForNonbonded \<or> \<not> fst sb \<or> \<not> fst (sh hardwareInfo)
           \<or> \<not> fst (si inputrec mtop)"
  shows "decideWhetherToUseGpusForPmeWithThreadMpi GMX_GPU sb sh si useGpuForNonbonded
             pmeTarget gpuIdsToUse userGpuTaskAssignment hardwareInfo inputrec mtop nr npr
           = Inr False
       \<and> (pmeTarget \<noteq> Gpu \<longrightarrow>
            decideWhetherToUseGpusForPme GMX_GPU sb sh si useGpuForNonbonded pmeTarget
              userGpuTaskAssignment hardwareInfo inputrec mtop nr npr gpusWereDetected
            = Inr False)
       \<and> (pmeTarget = Gpu \<longrightarrow>
            decideWhetherToUseGpusForPme GMX_GPU sb sh si useGpuForNonbonded pmeTarget
              userGpuTaskAssignment hardwareInfo inputrec mtop nr npr gpusWereDetected
            = Inl (NotImplementedError
                (if \<not> useGpuForNonbonded
                 then ''PME on GPUs is only supported when nonbonded interactions run on GPUs also.''
                 else ''Cannot compute PME interactions on a GPU, because ''
                      @ (if \<not> fst sb then snd sb
                         else if \<not> fst (sh hardwareInfo) then snd (sh hardwareInfo)
                         else snd (si inputrec mtop)))))"
  using assms
  by (auto simp: decideWhetherToUseGpusForPmeWithThreadMpi_def decideWhetherToUseGpusForPme_def)

theorem pme_capability_failure_witness:
  "\<not> fst ((\<lambda>hw :: unit. (False, ''no compatible GPU'')) ())
   \<and> decideWhetherToUseGpusForPmeWithThreadMpi GMX_GPU_CUDA (True, [])
        (\<lambda>hw :: unit. (False, ''no compatible GPU''))
        (\<lambda>(ir :: unit) (mt :: unit). (True, [])) True Gpu [0] [] () () () 1 0 = Inr False
   \<and> decideWhetherToUseGpusForPme GMX_GPU_CUDA (True, [])
        (\<lambda>hw :: unit. (False, ''no compatible GPU''))
        (\<lambda>(ir :: unit) (mt :: unit). (True, [])) True Gpu [] () () () 1 0 True
      = Inl (NotImplementedError
               ''Cannot compute PME interactions on a GPU, because no compatible GPU'')"
  using pme_capability_failure
    [where useGpuForNonbonded = True and sb = "(True, [])"
       and sh = "\<lambda>hw :: unit. (False, ''no compatible GPU'')"
       and si = "\<lambda>(ir :: unit) (mt :: unit). (True, [])"
       and hardwareInfo = "()" and inputrec = "()" and mtop = "()" and GMX_GPU = GMX_GPU_CUDA
       and pmeTarget = Gpu and gpuIdsToUse = "[0]" and userGpuTaskAssignment = "[]"
       and nr = 1 and npr = 0 and gpusWereDetected = True]
  by simp

text \<open>
  The specification's sentence has the thread-MPI decision throw for the target \<open>Gpu\<close>
  as well. With the hardware query failing it returns \<open>false\<close> instead.
\<close>

theorem pme_thread_mpi_forced_gpu_returns_false_counterexample:
  "decideWhetherToUseGpusForPmeWithThreadMpi GMX_GPU_CUDA (True, [])
     (\<lambda>hw :: unit. (False, ''no compatible GPU''))
     (\<lambda>(ir :: unit) (mt :: unit). (True, [])) True Gpu [0] [] () () () 1 0 = Inr False
   \<and> \<not> isl (decideWhetherToUseGpusForPmeWithThreadMpi GMX_GPU_CUDA (True, [])
     (\<lambda>hw :: unit. (False, ''no compatible GPU''))
     (\<lambda>(ir :: unit) (mt :: unit). (True, [])) True Gpu [0] [] () () () 1 0)"
  by (simp add: decideWhetherToUseGpusForPmeWithThreadMpi_def)

section \<open>C3: PME forced onto the GPU with more than one PME rank\<close>

text \<open>
  C3, as the code has it. Let the PME target be \<open>Gpu\<close>, the nonbonded interactions be on
  the GPU, the three capability queries hold, and the rank counts fail the single-PME-rank
  check (more than one rank with no separate PME rank, or more than one PME rank). With no
  explicit device assignment both PME decisions throw the \<open>NotImplementedError\<close> about
  more than one PME rank. With an explicit device assignment the thread-MPI decision throws
  an \<open>InconsistentInputError\<close>: the one asking for every option to be set when the rank
  count is below one, otherwise the one asking for a single PME rank.
\<close>

theorem pme_forced_gpu_rank_check:
  assumes "(nr > 1 \<and> npr = 0) \<or> npr > 1"
    and "useGpuForNonbonded" and "fst sb" and "fst (sh hardwareInfo)"
    and "fst (si inputrec mtop)"
  shows "(userGpuTaskAssignment = [] \<longrightarrow>
            decideWhetherToUseGpusForPmeWithThreadMpi GMX_GPU sb sh si useGpuForNonbonded Gpu
              gpuIdsToUse userGpuTaskAssignment hardwareInfo inputrec mtop nr npr
            = Inl (NotImplementedError
                (''PME tasks were required to run on GPUs, but that is not implemented with ''
                 @ ''more than one PME rank. Use a single rank simulation, or a separate PME rank, ''
                 @ ''or permit PME tasks to be assigned to the CPU.''))
          \<and> decideWhetherToUseGpusForPme GMX_GPU sb sh si useGpuForNonbonded Gpu
              userGpuTaskAssignment hardwareInfo inputrec mtop nr npr gpusWereDetected
            = Inl (NotImplementedError
                (''PME tasks were required to run on GPUs, but that is not implemented with ''
                 @ ''more than one PME rank. Use a single rank simulation, or a separate PME rank, ''
                 @ ''or permit PME tasks to be assigned to the CPU.'')))
       \<and> (userGpuTaskAssignment \<noteq> [] \<longrightarrow>
            decideWhetherToUseGpusForPmeWithThreadMpi GMX_GPU sb sh si useGpuForNonbonded Gpu
              gpuIdsToUse userGpuTaskAssignment hardwareInfo inputrec mtop nr npr
            = Inl (InconsistentInputError
                (if nr < 1
                 then g_specifyEverythingFormatString GMX_GPU ''all of -nb, -pme, and -ntmpi''
                 else ''When you run mdrun -pme gpu -gputasks, you must supply a PME-enabled .tpr ''
                      @ ''file and use a single PME rank.'')))"
  using assms
  by (auto simp: decideWhetherToUseGpusForPmeWithThreadMpi_def decideWhetherToUseGpusForPme_def)

theorem pme_forced_gpu_rank_check_witness:
  "(4 :: int) > 1 \<and> (2 :: int) > 1
   \<and> decideWhetherToUseGpusForPmeWithThreadMpi GMX_GPU_CUDA (True, [])
        (\<lambda>hw :: unit. (True, [])) (\<lambda>(ir :: unit) (mt :: unit). (True, []))
        True Gpu [0] [] () () () 4 2
      = Inl (NotImplementedError
          (''PME tasks were required to run on GPUs, but that is not implemented with ''
           @ ''more than one PME rank. Use a single rank simulation, or a separate PME rank, ''
           @ ''or permit PME tasks to be assigned to the CPU.''))
   \<and> decideWhetherToUseGpusForPme GMX_GPU_CUDA (True, [])
        (\<lambda>hw :: unit. (True, [])) (\<lambda>(ir :: unit) (mt :: unit). (True, []))
        True Gpu [] () () () 4 2 True
      = Inl (NotImplementedError
          (''PME tasks were required to run on GPUs, but that is not implemented with ''
           @ ''more than one PME rank. Use a single rank simulation, or a separate PME rank, ''
           @ ''or permit PME tasks to be assigned to the CPU.''))"
  using pme_forced_gpu_rank_check
    [where nr = 4 and npr = 2 and useGpuForNonbonded = True and sb = "(True, [])"
       and sh = "\<lambda>hw :: unit. (True, [])" and si = "\<lambda>(ir :: unit) (mt :: unit). (True, [])"
       and hardwareInfo = "()" and inputrec = "()" and mtop = "()"
       and userGpuTaskAssignment = "[]" and GMX_GPU = GMX_GPU_CUDA and gpuIdsToUse = "[0]"
       and gpusWereDetected = True]
  by simp

text \<open>
  The specification's sentence asks for a \<open>NotImplementedError\<close> on the
  explicit-assignment path too, and for every input. With four ranks, two of them PME
  ranks, and a device assignment, the thread-MPI decision throws an
  \<open>InconsistentInputError\<close>; and with the nonbonded interactions off the GPU it returns
  \<open>false\<close> without looking at the ranks.
\<close>

theorem pme_thread_mpi_gputasks_rank_check_counterexample:
  "decideWhetherToUseGpusForPmeWithThreadMpi GMX_GPU_CUDA (True, [])
     (\<lambda>hw :: unit. (True, [])) (\<lambda>(ir :: unit) (mt :: unit). (True, []))
     True Gpu [0, 1] [0, 1] () () () 4 2
   = Inl (InconsistentInputError
       (''When you run mdrun -pme gpu -gputasks, you must supply a PME-enabled .tpr ''
        @ ''file and use a single PME rank.''))
   \<and> decideWhetherToUseGpusForPmeWithThreadMpi GMX_GPU_CUDA (True, [])
     (\<lambda>hw :: unit. (True, [])) (\<lambda>(ir :: unit) (mt :: unit). (True, []))
     False Gpu [0, 1] [] () () () 4 2
   = Inr False"
  by (simp add: decideWhetherToUseGpusForPmeWithThreadMpi_def)

section \<open>C4: the update decision reports every unmet condition\<close>

text \<open>
  C4. For an update target other than \<open>Cpu\<close>: when some condition of the checklist is
  violated and the target is \<open>Gpu\<close>, the decision throws one \<open>InconsistentInputError\<close>
  whose text is the fixed prefix followed by the line of every violated condition, each of
  them present in it (so with domain decomposition the text contains
  "Domain decomposition is not supported."); when some condition is violated and the
  target is \<open>Auto\<close> it returns \<open>false\<close>; when none is violated it returns \<open>true\<close>
  exactly when the default-on flag is set with target \<open>Auto\<close>, or the target is \<open>Gpu\<close>.
\<close>

theorem update_decision_aggregates_unmet_conditions:
  fixes GMX_GPU enums forceGpuUpdateDefaultOn isDomainDecomposition useGpuForPme
    useGpuForNonbonded updateTarget gpusWereDetected inputrec haveVSites useEssentialDynamics
    doOrientationRestraints useReplicaExchange
  defines "unmet \<equiv> unmetConditions (updateChecklist GMX_GPU enums isDomainDecomposition
              useGpuForPme useGpuForNonbonded gpusWereDetected inputrec haveVSites
              useEssentialDynamics doOrientationRestraints useReplicaExchange)"
    and "r \<equiv> decideWhetherToUseGpuForUpdate GMX_GPU enums forceGpuUpdateDefaultOn
              isDomainDecomposition useGpuForPme useGpuForNonbonded updateTarget
              gpusWereDetected inputrec haveVSites useEssentialDynamics
              doOrientationRestraints useReplicaExchange"
  assumes notCpu: "updateTarget \<noteq> Cpu"
  shows "(unmet \<noteq> [] \<and> updateTarget = Gpu \<longrightarrow>
            r = Inl (InconsistentInputError (updateErrorPrefix @ concat unmet))
            \<and> (\<forall>m \<in> set unmet. sublist m (updateErrorPrefix @ concat unmet)))
       \<and> (isDomainDecomposition \<and> updateTarget = Gpu \<longrightarrow>
            (\<exists>msg. r = Inl (InconsistentInputError msg)
                   \<and> sublist ''Domain decomposition is not supported.'' msg))
       \<and> (unmet \<noteq> [] \<and> updateTarget = Auto \<longrightarrow> r = Inr False)
       \<and> (unmet = [] \<longrightarrow>
            r = Inr ((forceGpuUpdateDefaultOn \<and> updateTarget = Auto) \<or> updateTarget = Gpu))"
proof -
  have empty_iff: "(concat unmet = []) = (unmet = [])"
    unfolding unmet_def
    by (rule concat_unmet_empty_iff) (rule updateChecklist_messages_nonempty)
  have r_eq: "r = (if unmet \<noteq> [] then
                     (if updateTarget = Gpu
                      then Inl (InconsistentInputError (updateErrorPrefix @ concat unmet))
                      else Inr False)
                   else Inr ((forceGpuUpdateDefaultOn \<and> updateTarget = Auto) \<or> updateTarget = Gpu))"
    using notCpu empty_iff unfolding r_def unmet_def
    by (simp only: update_by_checklist if_False)
  have listed: "\<forall>m \<in> set unmet. sublist m (updateErrorPrefix @ concat unmet)"
    by (simp add: sublist_member_concat)
  have dd: "sublist ''Domain decomposition is not supported.'' (updateErrorPrefix @ concat unmet)"
    if "isDomainDecomposition"
  proof -
    have "''Domain decomposition is not supported.\<newline>'' \<in> set unmet"
      using that unfolding unmet_def by (simp add: unmetConditions_def updateChecklist_def)
    then have "sublist ''Domain decomposition is not supported.\<newline>''
                 (updateErrorPrefix @ concat unmet)"
      by (rule sublist_member_concat)
    moreover have "sublist ''Domain decomposition is not supported.''
                     ''Domain decomposition is not supported.\<newline>''"
      by (rule prefix_imp_sublist) (simp add: prefix_def)
    ultimately show ?thesis
      by (rule sublist_order.order.trans[rotated])
  qed
  have dd_unmet: "unmet \<noteq> []" if "isDomainDecomposition"
    using that unfolding unmet_def by (simp add: unmetConditions_def updateChecklist_def)
  show ?thesis
    using r_eq listed dd dd_unmet notCpu by (cases updateTarget) auto
qed

theorem update_decision_aggregates_unmet_conditions_witness:
  "Gpu \<noteq> Cpu
   \<and> decideWhetherToUseGpuForUpdate GMX_GPU_CUDA
        \<lparr>eiMD = 0, etcNOSEHOOVER = 2, epcNO = 0, epcPARRINELLORAHMAN = 2, epcBERENDSEN = 1,
         efepNO = 0, eswapNO = 0, EEL_PME_EWALD = (\<lambda>e. e = 3 \<or> e = 4)\<rparr>
        False True False True Gpu True
        \<lparr>eI = 0, etc = 0, epc = 0, coulombtype = 3, epsilon_surface = 0, bPull = False,
         pull = None, efep = 0, eSwapCoords = 0\<rparr>
        True False False False
      = Inl (InconsistentInputError
          (''Update task on the GPU was required,\<newline>''
           @ ''but the following condition(s) were not satisfied:\<newline>''
           @ ''Domain decomposition is not supported.\<newline>''
           @ ''Virtual sites are not supported.\<newline>''))"
  using update_decision_aggregates_unmet_conditions
    [where updateTarget = Gpu and GMX_GPU = GMX_GPU_CUDA
       and enums = "\<lparr>eiMD = 0, etcNOSEHOOVER = 2, epcNO = 0, epcPARRINELLORAHMAN = 2,
         epcBERENDSEN = 1, efepNO = 0, eswapNO = 0, EEL_PME_EWALD = (\<lambda>e. e = 3 \<or> e = 4)\<rparr>"
       and forceGpuUpdateDefaultOn = False and isDomainDecomposition = True
       and useGpuForPme = False and useGpuForNonbonded = True and gpusWereDetected = True
       and inputrec = "\<lparr>eI = 0, etc = 0, epc = 0, coulombtype = 3, epsilon_surface = 0,
         bPull = False, pull = None, efep = 0, eSwapCoords = 0\<rparr>"
       and haveVSites = True and useEssentialDynamics = False
       and doOrientationRestraints = False and useReplicaExchange = False]
  by (simp add: unmetConditions_def updateChecklist_def updateErrorPrefix_def)

section \<open>C5: an explicit device assignment with target Auto\<close>

text \<open>
  C5, as the code has it. Let the explicit device assignment be non-empty and the target of
  the duty be \<open>Auto\<close>. Each of the four decisions that take the assignment throws an
  \<open>InconsistentInputError\<close> asking for every option to be set exactly when its earlier
  checks pass: for the nonbonded decisions no emulation and useful placement (and build
  support, in the thread-MPI one); for the PME decisions the nonbonded interactions on the
  GPU and the three capability queries. The general nonbonded decision also throws an
  \<open>InconsistentInputError\<close> when emulation is chosen. In every other case an earlier
  check has failed and the decision returns \<open>false\<close>.
\<close>

theorem gputasks_with_auto_target:
  assumes "userGpuTaskAssignment \<noteq> []"
  shows "decideWhetherToUseGpusForNonbondedWithThreadMpi GMX_GPU Auto gpuIdsToUse
             userGpuTaskAssignment emulateGpuNonbonded buildSupportsNonbondedOnGpu
             nonbondedOnGpuIsUseful nr
           = (if emulateGpuNonbonded = No \<and> nonbondedOnGpuIsUseful \<and> buildSupportsNonbondedOnGpu
              then Inl (InconsistentInputError
                          (g_specifyEverythingFormatString GMX_GPU ''-nb and -ntmpi''))
              else Inr False)
       \<and> decideWhetherToUseGpusForNonbonded GMX_GPU Auto userGpuTaskAssignment
             emulateGpuNonbonded buildSupportsNonbondedOnGpu nonbondedOnGpuIsUseful
             gpusWereDetected
           = (if emulateGpuNonbonded = Yes
              then Inl (InconsistentInputError
                          (''GPU ID usage was specified, as was GPU emulation. Make ''
                           @ ''no more than one of these choices.''))
              else if nonbondedOnGpuIsUseful
              then Inl (InconsistentInputError
                          (g_specifyEverythingFormatString GMX_GPU ''-nb and -ntmpi''))
              else Inr False)
       \<and> decideWhetherToUseGpusForPmeWithThreadMpi GMX_GPU sb sh si useGpuForNonbonded Auto
             gpuIdsToUse userGpuTaskAssignment hardwareInfo inputrec mtop nr npr
           = (if useGpuForNonbonded \<and> fst sb \<and> fst (sh hardwareInfo) \<and> fst (si inputrec mtop)
              then Inl (InconsistentInputError
                          (g_specifyEverythingFormatString GMX_GPU ''all of -nb, -pme, and -ntmpi''))
              else Inr False)
       \<and> decideWhetherToUseGpusForPme GMX_GPU sb sh si useGpuForNonbonded Auto
             userGpuTaskAssignment hardwareInfo inputrec mtop nr npr gpusWereDetected
           = (if useGpuForNonbonded \<and> fst sb \<and> fst (sh hardwareInfo) \<and> fst (si inputrec mtop)
              then Inl (InconsistentInputError
                          (g_specifyEverythingFormatString GMX_GPU ''all of -nb, -pme, and -ntmpi''))
              else Inr False)"
proof -
  have em: "emulateGpuNonbonded \<noteq> Yes \<longleftrightarrow> emulateGpuNonbonded = No"
    by (cases emulateGpuNonbonded) simp_all
  show ?thesis
    using assms em
    by (simp add: decideWhetherToUseGpusForNonbondedWithThreadMpi_def
        decideWhetherToUseGpusForNonbonded_def decideWhetherToUseGpusForPmeWithThreadMpi_def
        decideWhetherToUseGpusForPme_def)
qed

theorem gputasks_with_auto_target_witness:
  "[0 :: int] \<noteq> []
   \<and> decideWhetherToUseGpusForNonbondedWithThreadMpi GMX_GPU_NONE Auto [0] [0] No True True 1
     = Inl (InconsistentInputError
         (''When you use mdrun -gputasks, -nb and -ntmpi must be set to non-default ''
          @ ''values, so that the device IDs can be interpreted correctly.''))
   \<and> decideWhetherToUseGpusForPme GMX_GPU_NONE (True, [])
        (\<lambda>hw :: unit. (True, [])) (\<lambda>(ir :: unit) (mt :: unit). (True, []))
        True Auto [0] () () () 1 0 True
     = Inl (InconsistentInputError
         (''When you use mdrun -gputasks, all of -nb, -pme, and -ntmpi must be set to non-default ''
          @ ''values, so that the device IDs can be interpreted correctly.''))"
  using gputasks_with_auto_target
    [where userGpuTaskAssignment = "[0]" and GMX_GPU = GMX_GPU_NONE and gpuIdsToUse = "[0]"
       and emulateGpuNonbonded = No and buildSupportsNonbondedOnGpu = True
       and nonbondedOnGpuIsUseful = True and nr = 1 and npr = 0 and gpusWereDetected = True
       and useGpuForNonbonded = True and sb = "(True, [])"
       and sh = "\<lambda>hw :: unit. (True, [])" and si = "\<lambda>(ir :: unit) (mt :: unit). (True, [])"
       and hardwareInfo = "()" and inputrec = "()" and mtop = "()"]
  by (simp add: g_specifyEverythingFormatString_def)

text \<open>
  The specification's sentence has every such input throw. With emulation chosen the
  thread-MPI nonbonded decision returns \<open>false\<close>, and so does the general PME decision
  when the nonbonded interactions are not on the GPU.
\<close>

theorem gputasks_with_auto_target_counterexample:
  "decideWhetherToUseGpusForNonbondedWithThreadMpi GMX_GPU_CUDA Auto [0] [0] Yes True True 1
     = Inr False
   \<and> decideWhetherToUseGpusForPme GMX_GPU_CUDA (True, [])
        (\<lambda>hw :: unit. (True, [])) (\<lambda>(ir :: unit) (mt :: unit). (True, []))
        False Auto [0] () () () 1 0 True
     = Inr False"
  by (simp add: decideWhetherToUseGpusForNonbondedWithThreadMpi_def
      decideWhetherToUseGpusForPme_def)

section \<open>C6: the target Cpu\<close>




section \<open>C7: the bonded interactions with target Auto\<close>

text \<open>
  C7, as the code has it. With the bonded target \<open>Auto\<close>, the bonded interactions
  supported on the GPU and the nonbonded interactions placed there, the decision returns
  \<open>true\<close> exactly when a GPU was detected and either LJ-PME is used, or the
  electrostatics use PME or Ewald, PME is not on the GPU and there is no separate PME rank
  (the number of PME ranks is at most zero). In particular, with PME on the CPU of this
  rank, electrostatics by PME or Ewald, no separate PME rank and a GPU detected, the bonded
  interactions go to the GPU.
\<close>

theorem bonded_auto_heuristic:
  assumes "canUseGpuForBonded" and "useGpuForNonbonded"
  shows "decideWhetherToUseGpusForBonded useGpuForNonbonded useGpuForPme Auto
             canUseGpuForBonded usingLJPme usingElecPmeOrEwald numPmeRanksPerSimulation
             gpusWereDetected
           = Inr (gpusWereDetected
                  \<and> ((usingElecPmeOrEwald \<and> \<not> useGpuForPme \<and> numPmeRanksPerSimulation \<le> 0)
                     \<or> usingLJPme))
       \<and> (gpusWereDetected \<and> usingElecPmeOrEwald \<and> \<not> useGpuForPme
          \<and> numPmeRanksPerSimulation \<le> 0 \<longrightarrow>
            decideWhetherToUseGpusForBonded useGpuForNonbonded useGpuForPme Auto
              canUseGpuForBonded usingLJPme usingElecPmeOrEwald numPmeRanksPerSimulation
              gpusWereDetected
            = Inr True)"
  using assms by (auto simp: decideWhetherToUseGpusForBonded_def)

theorem bonded_auto_heuristic_witness:
  "decideWhetherToUseGpusForBonded True False Auto True False True 0 True = Inr True"
  using bonded_auto_heuristic
    [where canUseGpuForBonded = True and useGpuForNonbonded = True and useGpuForPme = False
       and usingLJPme = False and usingElecPmeOrEwald = True
       and numPmeRanksPerSimulation = 0 and gpusWereDetected = True]
  by simp

text \<open>
  The specification's sentence leaves the PME ranks out. With one separate PME rank, the
  electrostatics by PME, PME not on the GPU and a GPU detected, its condition holds and the
  decision returns \<open>false\<close>.
\<close>

theorem bonded_auto_separate_pme_rank_counterexample:
  "decideWhetherToUseGpusForBonded True False Auto True False True 1 True = Inr False
   \<and> decideWhetherToUseGpusForBonded True False Auto True False True 1 True
     \<noteq> Inr (True \<and> ((True \<and> \<not> False) \<or> False))"
  by (simp add: decideWhetherToUseGpusForBonded_def)

section \<open>C8: PME with thread-MPI, target Auto and no device assignment\<close>

text \<open>
  C8. In the thread-MPI PME decision, with no explicit device assignment, the target
  \<open>Auto\<close>, the nonbonded interactions on the GPU and the three capability queries
  holding: with one rank the result is \<open>true\<close> exactly when some GPU is usable; with the
  rank count not yet chosen (below one) it is \<open>true\<close> exactly when one GPU is usable; with
  any other rank count it is \<open>false\<close>.
\<close>

theorem pme_thread_mpi_auto_without_gputasks:
  assumes "userGpuTaskAssignment = []" and "useGpuForNonbonded" and "fst sb"
    and "fst (sh hardwareInfo)" and "fst (si inputrec mtop)"
  shows "(numRanksPerSimulation = 1 \<longrightarrow>
            decideWhetherToUseGpusForPmeWithThreadMpi GMX_GPU sb sh si useGpuForNonbonded Auto
              gpuIdsToUse userGpuTaskAssignment hardwareInfo inputrec mtop
              numRanksPerSimulation npr
            = Inr (gpuIdsToUse \<noteq> []))
       \<and> (numRanksPerSimulation < 1 \<longrightarrow>
            decideWhetherToUseGpusForPmeWithThreadMpi GMX_GPU sb sh si useGpuForNonbonded Auto
              gpuIdsToUse userGpuTaskAssignment hardwareInfo inputrec mtop
              numRanksPerSimulation npr
            = Inr (length gpuIdsToUse = 1))
       \<and> (numRanksPerSimulation > 1 \<longrightarrow>
            decideWhetherToUseGpusForPmeWithThreadMpi GMX_GPU sb sh si useGpuForNonbonded Auto
              gpuIdsToUse userGpuTaskAssignment hardwareInfo inputrec mtop
              numRanksPerSimulation npr
            = Inr False)"
  using assms by (simp add: decideWhetherToUseGpusForPmeWithThreadMpi_def)

theorem pme_thread_mpi_auto_without_gputasks_witness:
  "decideWhetherToUseGpusForPmeWithThreadMpi GMX_GPU_CUDA (True, [])
       (\<lambda>hw :: unit. (True, [])) (\<lambda>(ir :: unit) (mt :: unit). (True, []))
       True Auto [0] [] () () () 0 0 = Inr True
   \<and> decideWhetherToUseGpusForPmeWithThreadMpi GMX_GPU_CUDA (True, [])
       (\<lambda>hw :: unit. (True, [])) (\<lambda>(ir :: unit) (mt :: unit). (True, []))
       True Auto [0, 1] [] () () () 0 0 = Inr False
   \<and> decideWhetherToUseGpusForPmeWithThreadMpi GMX_GPU_CUDA (True, [])
       (\<lambda>hw :: unit. (True, [])) (\<lambda>(ir :: unit) (mt :: unit). (True, []))
       True Auto [0, 1] [] () () () 1 0 = Inr True
   \<and> decideWhetherToUseGpusForPmeWithThreadMpi GMX_GPU_CUDA (True, [])
       (\<lambda>hw :: unit. (True, [])) (\<lambda>(ir :: unit) (mt :: unit). (True, []))
       True Auto [0] [] () () () 2 0 = Inr False"
  using pme_thread_mpi_auto_without_gputasks
    [where userGpuTaskAssignment = "[]" and useGpuForNonbonded = True and sb = "(True, [])"
       and sh = "\<lambda>hw :: unit. (True, [])" and si = "\<lambda>(ir :: unit) (mt :: unit). (True, [])"
       and hardwareInfo = "()" and inputrec = "()" and mtop = "()" and GMX_GPU = GMX_GPU_CUDA
       and gpuIdsToUse = "[0]" and numRanksPerSimulation = 0 and npr = 0]
    pme_thread_mpi_auto_without_gputasks
    [where userGpuTaskAssignment = "[]" and useGpuForNonbonded = True and sb = "(True, [])"
       and sh = "\<lambda>hw :: unit. (True, [])" and si = "\<lambda>(ir :: unit) (mt :: unit). (True, [])"
       and hardwareInfo = "()" and inputrec = "()" and mtop = "()" and GMX_GPU = GMX_GPU_CUDA
       and gpuIdsToUse = "[0, 1]" and numRanksPerSimulation = 0 and npr = 0]
    pme_thread_mpi_auto_without_gputasks
    [where userGpuTaskAssignment = "[]" and useGpuForNonbonded = True and sb = "(True, [])"
       and sh = "\<lambda>hw :: unit. (True, [])" and si = "\<lambda>(ir :: unit) (mt :: unit). (True, [])"
       and hardwareInfo = "()" and inputrec = "()" and mtop = "()" and GMX_GPU = GMX_GPU_CUDA
       and gpuIdsToUse = "[0, 1]" and numRanksPerSimulation = 1 and npr = 0]
    pme_thread_mpi_auto_without_gputasks
    [where userGpuTaskAssignment = "[]" and useGpuForNonbonded = True and sb = "(True, [])"
       and sh = "\<lambda>hw :: unit. (True, [])" and si = "\<lambda>(ir :: unit) (mt :: unit). (True, [])"
       and hardwareInfo = "()" and inputrec = "()" and mtop = "()" and GMX_GPU = GMX_GPU_CUDA
       and gpuIdsToUse = "[0]" and numRanksPerSimulation = 2 and npr = 0]
  by simp

section \<open>C9: the unreachable throw of the general PME decision\<close>

text \<open>
  C9. The general PME decision returns \<open>false\<close> for the target \<open>Cpu\<close> at its first
  test, whatever the device assignment is, and for no input at all does it throw the
  \<open>InconsistentInputError\<close> of its second test of that target ("A GPU task assignment was
  specified, but PME interactions were assigned to the CPU ..."): that branch is
  unreachable.
\<close>

theorem pme_cpu_gputasks_error_unreachable:
  "decideWhetherToUseGpusForPme GMX_GPU sb sh si useGpuForNonbonded Cpu
       userGpuTaskAssignment hardwareInfo inputrec mtop nr npr gpusWereDetected = Inr False
   \<and> decideWhetherToUseGpusForPme GMX_GPU sb sh si useGpuForNonbonded pmeTarget
       userGpuTaskAssignment hardwareInfo inputrec mtop nr npr gpusWereDetected
     \<noteq> Inl (InconsistentInputError
            (''A GPU task assignment was specified, but PME interactions were ''
             @ ''assigned to the CPU. Make no more than one of these choices.''))"
  by (simp add: decideWhetherToUseGpusForPme_def g_specifyEverythingFormatString_def)

theorem pme_cpu_gputasks_error_unreachable_witness:
  "decideWhetherToUseGpusForPme GMX_GPU_CUDA (True, []) (\<lambda>hw :: unit. (True, []))
       (\<lambda>(ir :: unit) (mt :: unit). (True, [])) True Cpu [0] () () () 1 0 True = Inr False"
  using pme_cpu_gputasks_error_unreachable
    [where GMX_GPU = GMX_GPU_CUDA and sb = "(True, [])" and sh = "\<lambda>hw :: unit. (True, [])"
       and si = "\<lambda>(ir :: unit) (mt :: unit). (True, [])" and useGpuForNonbonded = True
       and userGpuTaskAssignment = "[0]" and hardwareInfo = "()" and inputrec = "()"
       and mtop = "()" and nr = 1 and npr = 0 and gpusWereDetected = True]
  by simp

section \<open>C10: the bonded decision throws inconsistent-input errors only\<close>

text \<open>
  C10. For every input the bonded decision returns a boolean or throws an
  \<open>InconsistentInputError\<close>; it never throws a \<open>NotImplementedError\<close>.
\<close>

theorem bonded_never_not_implemented:
  "((\<exists>b. decideWhetherToUseGpusForBonded useGpuForNonbonded useGpuForPme bondedTarget
            canUseGpuForBonded usingLJPme usingElecPmeOrEwald numPmeRanksPerSimulation
            gpusWereDetected = Inr b)
    \<or> (\<exists>m. decideWhetherToUseGpusForBonded useGpuForNonbonded useGpuForPme bondedTarget
            canUseGpuForBonded usingLJPme usingElecPmeOrEwald numPmeRanksPerSimulation
            gpusWereDetected = Inl (InconsistentInputError m)))
   \<and> decideWhetherToUseGpusForBonded useGpuForNonbonded useGpuForPme bondedTarget
       canUseGpuForBonded usingLJPme usingElecPmeOrEwald numPmeRanksPerSimulation
       gpusWereDetected
     \<noteq> Inl (NotImplementedError msg)"
  by (auto simp: decideWhetherToUseGpusForBonded_def)

theorem bonded_never_not_implemented_witness:
  "decideWhetherToUseGpusForBonded False False Gpu True False True 0 True
     \<noteq> Inl (NotImplementedError
          (''Bonded interactions on the GPU were required, but this requires that ''
           @ ''short-ranged non-bonded interactions are also run on the GPU. Change ''
           @ ''your settings, or do not require using GPUs.''))"
  using bonded_never_not_implemented
    [where useGpuForNonbonded = False and useGpuForPme = False and bondedTarget = Gpu
       and canUseGpuForBonded = True and usingLJPme = False and usingElecPmeOrEwald = True
       and numPmeRanksPerSimulation = 0 and gpusWereDetected = True]
  by simp

end
